theory Spec2Isabelle
  imports Complex_Main
begin

section \<open>The mobile location store\<close>

text \<open>
  \<^verbatim>\<open>mobile/src/store/locationStore.ts\<close> keeps the user's position in a Zustand store.
  A JavaScript \<^verbatim>\<open>number\<close> is modelled as a \<^typ>\<open>real\<close>: rounding, infinities and NaN
  of IEEE doubles are outside the model. A field of type \<^verbatim>\<open>T | null\<close> is a
  \<^typ>\<open>'a option\<close>, with \<^term>\<open>None\<close> for \<^verbatim>\<open>null\<close>.
\<close>

record Coordinates =
  latitude :: real
  longitude :: real

text \<open>The values of expo-location's \<^verbatim>\<open>PermissionStatus\<close>.\<close>

datatype PermissionStatus = GRANTED | DENIED | UNDETERMINED

record LocationState =
  currentLocation :: "Coordinates option"
  lastKnownLocation :: "Coordinates option"
  permissionStatus :: "PermissionStatus option"
  isLoading :: bool
  error :: "string option"
  isWatching :: bool
  accuracy :: "real option"
  heading :: "real option"
  speed :: "real option"

text \<open>The fields of \<^verbatim>\<open>location.coords\<close> the store reads from a position sample.\<close>

record LocationObject =
  coords_latitude :: real
  coords_longitude :: real
  coords_accuracy :: "real option"
  coords_heading :: "real option"
  coords_speed :: "real option"

definition initialState :: LocationState where
  "initialState =
     \<lparr>currentLocation = None, lastKnownLocation = None, permissionStatus = None,
      isLoading = False, error = None, isWatching = False,
      accuracy = None, heading = None, speed = None\<rparr>"

text \<open>
  The actions are asynchronous: between two \<^verbatim>\<open>await\<close>s any other callback may run.
  What is atomic is one call of \<^verbatim>\<open>set({...})\<close>, which merges the given fields into the
  state. Each \<^verbatim>\<open>set\<close> call of the source is one function below, named after its action.
\<close>

definition coordsOf :: "LocationObject \<Rightarrow> Coordinates" where
  "coordsOf location =
     \<lparr>latitude = coords_latitude location, longitude = coords_longitude location\<rparr>"

definition requestPermission_status :: "PermissionStatus \<Rightarrow> LocationState \<Rightarrow> LocationState" where
  "requestPermission_status status s = s\<lparr>permissionStatus := Some status\<rparr>"

definition requestPermission_denied :: "LocationState \<Rightarrow> LocationState" where
  "requestPermission_denied s = s\<lparr>error := Some ''Location permission denied''\<rparr>"

definition requestPermission_failed :: "LocationState \<Rightarrow> LocationState" where
  "requestPermission_failed s = s\<lparr>error := Some ''Failed to request location permission''\<rparr>"

definition getCurrentLocation_loading :: "LocationState \<Rightarrow> LocationState" where
  "getCurrentLocation_loading s = s\<lparr>isLoading := True, error := None\<rparr>"

definition getCurrentLocation_success :: "LocationObject \<Rightarrow> LocationState \<Rightarrow> LocationState" where
  "getCurrentLocation_success location s =
     (let coords = coordsOf location in
      s\<lparr>currentLocation := Some coords,
        lastKnownLocation := Some coords,
        accuracy := coords_accuracy location,
        heading := coords_heading location,
        speed := coords_speed location,
        isLoading := False,
        error := None\<rparr>)"

text \<open>The \<^verbatim>\<open>catch\<close> branch picks the message from \<^verbatim>\<open>error.code\<close>.\<close>

definition getCurrentLocation_errorMessage :: "string \<Rightarrow> string" where
  "getCurrentLocation_errorMessage code =
     (if code = ''E_LOCATION_SETTINGS_UNSATISFIED''
      then ''Please enable location services in your device settings''
      else if code = ''E_LOCATION_TIMEOUT''
      then ''Location request timed out. Please try again.''
      else ''Failed to get current location'')"

definition getCurrentLocation_failed :: "string \<Rightarrow> LocationState \<Rightarrow> LocationState" where
  "getCurrentLocation_failed code s =
     s\<lparr>error := Some (getCurrentLocation_errorMessage code), isLoading := False\<rparr>"

definition watchLocation_update :: "LocationObject \<Rightarrow> LocationState \<Rightarrow> LocationState" where
  "watchLocation_update location s =
     (let coords = coordsOf location in
      s\<lparr>currentLocation := Some coords,
        lastKnownLocation := Some coords,
        accuracy := coords_accuracy location,
        heading := coords_heading location,
        speed := coords_speed location,
        error := None\<rparr>)"

definition watchLocation_started :: "LocationState \<Rightarrow> LocationState" where
  "watchLocation_started s = s\<lparr>isWatching := True, error := None\<rparr>"

definition watchLocation_failed :: "LocationState \<Rightarrow> LocationState" where
  "watchLocation_failed s = s\<lparr>error := Some ''Failed to start location tracking''\<rparr>"

definition stopWatching :: "LocationState \<Rightarrow> LocationState" where
  "stopWatching s = s\<lparr>isWatching := False\<rparr>"

definition setLocation :: "Coordinates \<Rightarrow> LocationState \<Rightarrow> LocationState" where
  "setLocation location s =
     s\<lparr>currentLocation := Some location, lastKnownLocation := Some location\<rparr>"

definition clearError :: "LocationState \<Rightarrow> LocationState" where
  "clearError s = s\<lparr>error := None\<rparr>"

definition reset :: "LocationState \<Rightarrow> LocationState" where
  "reset s =
     s\<lparr>currentLocation := None, lastKnownLocation := None, permissionStatus := None,
       isLoading := False, error := None, isWatching := False,
       accuracy := None, heading := None, speed := None\<rparr>"

text \<open>
  One \<^verbatim>\<open>set\<close> call of the store, with the data the environment supplies to it (the
  permission status, the position sample, the error code, the caller's argument).
\<close>

datatype StoreUpdate =
    RequestPermissionStatus PermissionStatus
  | RequestPermissionDenied
  | RequestPermissionFailed
  | GetCurrentLocationLoading
  | GetCurrentLocationSuccess LocationObject
  | GetCurrentLocationFailed string
  | WatchLocationUpdate LocationObject
  | WatchLocationStarted
  | WatchLocationFailed
  | StopWatching
  | SetLocation Coordinates
  | ClearError
  | Reset

fun applyUpdate :: "StoreUpdate \<Rightarrow> LocationState \<Rightarrow> LocationState" where
  "applyUpdate (RequestPermissionStatus status) s = requestPermission_status status s"
| "applyUpdate RequestPermissionDenied s = requestPermission_denied s"
| "applyUpdate RequestPermissionFailed s = requestPermission_failed s"
| "applyUpdate GetCurrentLocationLoading s = getCurrentLocation_loading s"
| "applyUpdate (GetCurrentLocationSuccess location) s = getCurrentLocation_success location s"
| "applyUpdate (GetCurrentLocationFailed code) s = getCurrentLocation_failed code s"
| "applyUpdate (WatchLocationUpdate location) s = watchLocation_update location s"
| "applyUpdate WatchLocationStarted s = watchLocation_started s"
| "applyUpdate WatchLocationFailed s = watchLocation_failed s"
| "applyUpdate StopWatching s = stopWatching s"
| "applyUpdate (SetLocation location) s = setLocation location s"
| "applyUpdate ClearError s = clearError s"
| "applyUpdate Reset s = reset s"

text \<open>
  The states the store can be in: the initial one, and any state after one more
  \<^verbatim>\<open>set\<close> call. Every interleaving of the asynchronous actions is a sequence of such
  calls, so the relation covers all of them (and some sequences the guards of the
  actions exclude, which only makes an invariant of it stronger).
\<close>

inductive reachable :: "LocationState \<Rightarrow> bool" where
  reachable_init: "reachable initialState"
| reachable_step: "reachable s \<Longrightarrow> reachable (applyUpdate u s)"

text \<open>The same states, as the result of running a list of updates in order.\<close>

fun runUpdates :: "StoreUpdate list \<Rightarrow> LocationState \<Rightarrow> LocationState" where
  "runUpdates [] s = s"
| "runUpdates (u # us) s = runUpdates us (applyUpdate u s)"

section \<open>Distances on the sphere\<close>

text \<open>
  The hook \<^verbatim>\<open>useLocation\<close> ends with the helper \<^verbatim>\<open>calculateDistance\<close> (the haversine
  formula) and offers \<^verbatim>\<open>isWithinRadius\<close> and \<^verbatim>\<open>getDistanceTo\<close> on top of it. Numbers are
  reals here, so \<^verbatim>\<open>Math.sin\<close>, \<^verbatim>\<open>Math.cos\<close> and \<^verbatim>\<open>Math.sqrt\<close> are the functions of
  analysis; what the model proves is the arithmetic of the formula, not the rounding of
  IEEE doubles.

  \<^verbatim>\<open>Math.atan2(y, x)\<close> is the angle of the point \<open>(x, y)\<close> in \<open>(-\<pi>, \<pi>]\<close>, with
  \<^verbatim>\<open>Math.atan2(0, 0) = 0\<close>.
\<close>

definition Math_atan2 :: "real \<Rightarrow> real \<Rightarrow> real" where
  "Math_atan2 y x =
     (if 0 < x then arctan (y / x)
      else if x < 0 then (if 0 \<le> y then arctan (y / x) + pi else arctan (y / x) - pi)
      else if 0 < y then pi / 2
      else if y < 0 then - (pi / 2)
      else 0)"

text \<open>
  The source, with its Greek variable names spelled out:
  \<^verbatim>\<open>
  function calculateDistance(lat1, lon1, lat2, lon2) {
    const R = 6371e3;
    const phi1 = (lat1 * Math.PI) / 180;
    const phi2 = (lat2 * Math.PI) / 180;
    const dphi = ((lat2 - lat1) * Math.PI) / 180;
    const dlambda = ((lon2 - lon1) * Math.PI) / 180;
    const a = Math.sin(dphi / 2) * Math.sin(dphi / 2) +
      Math.cos(phi1) * Math.cos(phi2) * Math.sin(dlambda / 2) * Math.sin(dlambda / 2);
    const c = 2 * Math.atan2(Math.sqrt(a), Math.sqrt(1 - a));
    return R * c;
  }
  \<close>
  The function checks nothing and throws nothing. Over the reals the quantity \<open>a\<close> always
  lies in \<open>[0, 1]\<close>, so both square roots are defined. In IEEE doubles rounding can make
  \<open>a\<close> slightly larger than 1 for nearly antipodal points, and the source then returns NaN
  (as it does on NaN or infinite input); that behaviour is outside this model, and no
  statement below about the failure modes of the code relies on the range of the result.
\<close>

definition calculateDistance :: "real \<Rightarrow> real \<Rightarrow> real \<Rightarrow> real \<Rightarrow> real" where
  "calculateDistance lat1 lon1 lat2 lon2 =
     (let R = 6371000;
          phi1 = (lat1 * pi) / 180;
          phi2 = (lat2 * pi) / 180;
          dphi = ((lat2 - lat1) * pi) / 180;
          dlambda = ((lon2 - lon1) * pi) / 180;
          a = sin (dphi / 2) * sin (dphi / 2) +
              cos phi1 * cos phi2 * sin (dlambda / 2) * sin (dlambda / 2);
          c = 2 * Math_atan2 (sqrt a) (sqrt (1 - a))
      in R * c)"

text \<open>
  The two helpers of the hook read \<^verbatim>\<open>currentLocation\<close> from the store; it is the first
  argument here. With no location yet, \<^verbatim>\<open>getDistanceTo\<close> returns \<^verbatim>\<open>null\<close> and
  \<^verbatim>\<open>isWithinRadius\<close> returns \<^verbatim>\<open>false\<close>. Neither looks at the range of the coordinates or
  at the sign of the radius.
\<close>

definition getDistanceTo :: "Coordinates option \<Rightarrow> real \<Rightarrow> real \<Rightarrow> real option" where
  "getDistanceTo location targetLat targetLng =
     (case location of
        None \<Rightarrow> None
      | Some cur \<Rightarrow> Some (calculateDistance (latitude cur) (longitude cur) targetLat targetLng))"

definition isWithinRadius :: "Coordinates option \<Rightarrow> real \<Rightarrow> real \<Rightarrow> real \<Rightarrow> bool" where
  "isWithinRadius location targetLat targetLng radiusMeters =
     (case location of
        None \<Rightarrow> False
      | Some cur \<Rightarrow>
          (let distance = calculateDistance (latitude cur) (longitude cur) targetLat targetLng
           in distance \<le> radiusMeters))"

text \<open>
  The only exception these two helpers could raise is JavaScript's \<^verbatim>\<open>TypeError\<close>, on
  reading \<^verbatim>\<open>.latitude\<close> or \<^verbatim>\<open>.longitude\<close> of \<^verbatim>\<open>null\<close>; arithmetic, \<^verbatim>\<open>Math\<close> functions
  and comparisons of numbers never throw. The same two helpers again, with the property
  reads as steps that can fail, and the source's guard \<^verbatim>\<open>if (!currentLocation) return\<close>
  in front of them:
  \<^verbatim>\<open>
  if (!currentLocation) return false;
  const distance = calculateDistance(
    currentLocation.latitude, currentLocation.longitude, targetLat, targetLng);
  return distance <= radiusMeters;
  \<close>
\<close>

datatype JsError = TypeError

definition read_latitude :: "Coordinates option \<Rightarrow> JsError + real" where
  "read_latitude obj = (case obj of None \<Rightarrow> Inl TypeError | Some c \<Rightarrow> Inr (latitude c))"

definition read_longitude :: "Coordinates option \<Rightarrow> JsError + real" where
  "read_longitude obj = (case obj of None \<Rightarrow> Inl TypeError | Some c \<Rightarrow> Inr (longitude c))"

definition isWithinRadius_js ::
  "Coordinates option \<Rightarrow> real \<Rightarrow> real \<Rightarrow> real \<Rightarrow> JsError + bool" where
  "isWithinRadius_js location targetLat targetLng radiusMeters =
     (if location = None then Inr False
      else
        (case read_latitude location of
           Inl e \<Rightarrow> Inl e
         | Inr lat \<Rightarrow>
             (case read_longitude location of
                Inl e \<Rightarrow> Inl e
              | Inr lon \<Rightarrow>
                  (let distance = calculateDistance lat lon targetLat targetLng
                   in Inr (distance \<le> radiusMeters)))))"

definition getDistanceTo_js ::
  "Coordinates option \<Rightarrow> real \<Rightarrow> real \<Rightarrow> JsError + real option" where
  "getDistanceTo_js location targetLat targetLng =
     (if location = None then Inr None
      else
        (case read_latitude location of
           Inl e \<Rightarrow> Inl e
         | Inr lat \<Rightarrow>
             (case read_longitude location of
                Inl e \<Rightarrow> Inl e
              | Inr lon \<Rightarrow> Inr (Some (calculateDistance lat lon targetLat targetLng)))))"

text \<open>
  The specification calls the distance of two coordinates \<open>distanceMeters(a, b)\<close>; in the
  code it is \<^verbatim>\<open>calculateDistance\<close> on their four fields.
\<close>

definition distanceMeters :: "Coordinates \<Rightarrow> Coordinates \<Rightarrow> real" where
  "distanceMeters a b = calculateDistance (latitude a) (longitude a) (latitude b) (longitude b)"

section \<open>The proximity guard of the specification\<close>

text \<open>
  The anti-cheat evaluator and the fog-of-war chunk index exist in the repository as a
  design only (the security checklist lists them under "TODO: implement in location
  service"). They are modelled from the specification, on top of the distance function of
  the code.
\<close>

text \<open>
  Modelled from the spec: the error taxonomy and the data model of the guard
  (\<open>LocationReport\<close>, \<open>FogChunk\<close>, \<open>ProximityVerdict\<close>, \<open>AntiCheatVerdict\<close> and its reason
  codes); the source declares none of them. A \<open>Coordinate\<close> is the \<open>Coordinates\<close> of the
  store.
\<close>

datatype GuardError = InvalidCoordinate | InvalidRadius

text \<open>
  Modelled from the spec: the range check of a \<open>Coordinate\<close> (latitude in \<open>[-90, 90]\<close>,
  longitude in \<open>[-180, 180]\<close>); no function of the source validates a coordinate.
\<close>

definition validCoordinate :: "Coordinates \<Rightarrow> bool" where
  "validCoordinate c =
     (- 90 \<le> latitude c \<and> latitude c \<le> 90 \<and> - 180 \<le> longitude c \<and> longitude c \<le> 180)"

record ProximityVerdict =
  within_radius :: bool
  distance_meters :: real

record LocationReport =
  coordinate :: Coordinates
  timestamp :: real
  accuracy_meters :: real
  is_mocked :: bool
  reporter_id :: string

record FogChunk =
  chunk_x :: int
  chunk_y :: int

datatype ReasonCode = MOCKED | IMPOSSIBLE_SPEED | RATE_LIMIT_EXCEEDED | TOO_CLOSE_TO_EXISTING

record AntiCheatVerdict =
  flagged :: bool
  reasons :: "ReasonCode set"

text \<open>
  Modelled from the spec: the tunable constants of \<open>evaluateReport\<close>, which is missing
  from the source: the \<open>epsilon\<close> of the speed formula (the specification gives it no
  value), the speed threshold, the daily cap and the minimum distance between placements.
\<close>

record GuardConfig =
  epsilon :: real
  maxSpeed :: real
  dailyCap :: int
  minDistance :: real

text \<open>
  Modelled from the spec: the values the specification names (5000 m/s, 3 reports per
  day, 20 m); \<open>epsilon\<close> stays a parameter.
\<close>

definition defaultConfig :: "real \<Rightarrow> GuardConfig" where
  "defaultConfig eps = \<lparr>epsilon = eps, maxSpeed = 5000, dailyCap = 3, minDistance = 20\<rparr>"

text \<open>
  Modelled from the spec: \<open>elapsedSeconds\<close> of \<open>evaluateReport\<close>, missing from the source;
  timestamps are taken in seconds.
\<close>

definition elapsedSeconds :: "LocationReport \<Rightarrow> LocationReport \<Rightarrow> real" where
  "elapsedSeconds prev report = timestamp report - timestamp prev"

text \<open>
  Modelled from the spec: the four reason checks of \<open>evaluateReport\<close>, missing from the
  source. \<open>MOCKED\<close>: the report's flag. \<open>IMPOSSIBLE_SPEED\<close>: with a previous report,
  \<open>speed = distanceMeters(prev.coordinate, report.coordinate) / max(elapsedSeconds, epsilon)\<close>
  exceeds the threshold; the specification's edge case (\<open>elapsedSeconds = 0\<close> with nonzero
  movement is infinite speed) comes first. \<open>RATE_LIMIT_EXCEEDED\<close>: \<open>recentReportsToday\<close>
  has reached the cap. \<open>TOO_CLOSE_TO_EXISTING\<close>: some prior placement is within the
  minimum distance, the boundary included as in \<open>isWithinRadius\<close>.
\<close>

definition mockedCheck :: "LocationReport \<Rightarrow> bool" where
  "mockedCheck report = is_mocked report"

definition speedCheck :: "GuardConfig \<Rightarrow> LocationReport \<Rightarrow> LocationReport option \<Rightarrow> bool" where
  "speedCheck cfg report previousReport =
     (case previousReport of
        None \<Rightarrow> False
      | Some prev \<Rightarrow>
          (let d = distanceMeters (coordinate prev) (coordinate report);
               elapsed = elapsedSeconds prev report
           in if elapsed = 0 \<and> d \<noteq> 0 then True
              else maxSpeed cfg < d / max elapsed (epsilon cfg)))"

definition rateCheck :: "GuardConfig \<Rightarrow> int \<Rightarrow> bool" where
  "rateCheck cfg recentReportsToday = (dailyCap cfg \<le> recentReportsToday)"

definition proximityCheck :: "GuardConfig \<Rightarrow> LocationReport \<Rightarrow> Coordinates list \<Rightarrow> bool" where
  "proximityCheck cfg report recentArtifactPlacements =
     (\<exists>p \<in> set recentArtifactPlacements.
        distanceMeters p (coordinate report) \<le> minDistance cfg)"

text \<open>
  Modelled from the spec: the input validation of \<open>evaluateReport\<close>, missing from the
  source: every coordinate it is given is in range.
\<close>

definition validInputs :: "LocationReport \<Rightarrow> LocationReport option \<Rightarrow> Coordinates list \<Rightarrow> bool" where
  "validInputs report previousReport recentArtifactPlacements =
     (validCoordinate (coordinate report) \<and>
      (case previousReport of None \<Rightarrow> True | Some prev \<Rightarrow> validCoordinate (coordinate prev)) \<and>
      list_all validCoordinate recentArtifactPlacements)"

text \<open>
  The coordinates \<open>evaluateReport\<close> is given: the report's, the previous report's when
  there is one, and the recent placements.
\<close>

definition inputCoordinates ::
  "LocationReport \<Rightarrow> LocationReport option \<Rightarrow> Coordinates list \<Rightarrow> Coordinates list" where
  "inputCoordinates report previousReport recentArtifactPlacements =
     coordinate report #
     (case previousReport of None \<Rightarrow> [] | Some prev \<Rightarrow> [coordinate prev]) @
     recentArtifactPlacements"

text \<open>
  Modelled from the spec: \<open>evaluateReport\<close>, missing from the source. Out-of-range input
  fails with \<open>InvalidCoordinate\<close>; otherwise all four checks run, each adds its reason, and
  \<open>flagged\<close> says whether any did.
\<close>

definition evaluateReport ::
  "GuardConfig \<Rightarrow> LocationReport \<Rightarrow> LocationReport option \<Rightarrow> int \<Rightarrow> Coordinates list
     \<Rightarrow> GuardError + AntiCheatVerdict" where
  "evaluateReport cfg report previousReport recentReportsToday recentArtifactPlacements =
     (if \<not> validInputs report previousReport recentArtifactPlacements then Inl InvalidCoordinate
      else
        (let rs = (if mockedCheck report then {MOCKED} else {}) \<union>
                  (if speedCheck cfg report previousReport then {IMPOSSIBLE_SPEED} else {}) \<union>
                  (if rateCheck cfg recentReportsToday then {RATE_LIMIT_EXCEEDED} else {}) \<union>
                  (if proximityCheck cfg report recentArtifactPlacements
                   then {TOO_CLOSE_TO_EXISTING} else {})
         in Inr \<lparr>flagged = (rs \<noteq> {}), reasons = rs\<rparr>))"

text \<open>
  Modelled from the spec: the degrees per chunk of \<open>chunkOf\<close>, missing from the source:
  \<open>chunkSizeMeters / (111320 * cos(originLatitudeDeg in radians))\<close> along the longitude and
  \<open>chunkSizeMeters / 110540\<close> along the latitude. At an origin latitude of 90 or -90 degrees
  the cosine is zero; the specification does not say what happens there, and division by
  zero is 0 in HOL.
\<close>

definition lonDegPerChunk :: "real \<Rightarrow> real \<Rightarrow> real" where
  "lonDegPerChunk chunkSizeMeters originLatitudeDeg =
     chunkSizeMeters / (111320 * cos (originLatitudeDeg * pi / 180))"

definition latDegPerChunk :: "real \<Rightarrow> real" where
  "latDegPerChunk chunkSizeMeters = chunkSizeMeters / 110540"

text \<open>
  Modelled from the spec: \<open>chunkOf\<close>, missing from the source:
  \<open>chunk_x = floor(longitude / lonDegPerChunk)\<close> and
  \<open>chunk_y = floor(latitude / latDegPerChunk)\<close>, after the range check.
\<close>

definition chunkOf :: "Coordinates \<Rightarrow> real \<Rightarrow> real \<Rightarrow> GuardError + FogChunk" where
  "chunkOf coord chunkSizeMeters originLatitudeDeg =
     (if \<not> validCoordinate coord then Inl InvalidCoordinate
      else Inr \<lparr>chunk_x = \<lfloor>longitude coord / lonDegPerChunk chunkSizeMeters originLatitudeDeg\<rfloor>,
                chunk_y = \<lfloor>latitude coord / latDegPerChunk chunkSizeMeters\<rfloor>\<rparr>)"

section \<open>The specification's wording of the operations of the code\<close>

text \<open>
  The specification describes \<open>distanceMeters\<close> and \<open>isWithinRadius\<close> with failures the
  code does not have. These definitions follow the specification's words, to be compared
  with \<^const>\<open>calculateDistance\<close> and \<^const>\<open>isWithinRadius\<close>: out-of-range coordinates
  fail with \<open>InvalidCoordinate\<close>, a radius that is zero or negative fails with
  \<open>InvalidRadius\<close>.
\<close>

definition spec_distanceMeters :: "Coordinates \<Rightarrow> Coordinates \<Rightarrow> GuardError + real" where
  "spec_distanceMeters a b =
     (if validCoordinate a \<and> validCoordinate b then Inr (distanceMeters a b)
      else Inl InvalidCoordinate)"

definition spec_isWithinRadius ::
  "Coordinates \<Rightarrow> Coordinates \<Rightarrow> real \<Rightarrow> GuardError + ProximityVerdict" where
  "spec_isWithinRadius user target radiusMeters =
     (if radiusMeters \<le> 0 then Inl InvalidRadius
      else if \<not> (validCoordinate user \<and> validCoordinate target) then Inl InvalidCoordinate
      else Inr \<lparr>within_radius = (distanceMeters user target \<le> radiusMeters),
                distance_meters = distanceMeters user target\<rparr>)"

text \<open>
  The great-circle distance of two points on a sphere of radius 6,371,000 m, by the
  spherical law of cosines: the radius times the angle between the two position vectors,
  whose cosine is \<open>sin \<phi>1 sin \<phi>2 + cos \<phi>1 cos \<phi>2 cos \<Delta>\<lambda>\<close>.
\<close>

definition centralCosine :: "real \<Rightarrow> real \<Rightarrow> real \<Rightarrow> real \<Rightarrow> real" where
  "centralCosine lat1 lon1 lat2 lon2 =
     sin (lat1 * pi / 180) * sin (lat2 * pi / 180) +
     cos (lat1 * pi / 180) * cos (lat2 * pi / 180) * cos ((lon2 - lon1) * pi / 180)"

definition greatCircleDistance :: "real \<Rightarrow> real \<Rightarrow> real \<Rightarrow> real \<Rightarrow> real" where
  "greatCircleDistance lat1 lon1 lat2 lon2 =
     6371000 * arccos (centralCosine lat1 lon1 lat2 lon2)"

text \<open>The quantity \<open>a\<close> of \<^const>\<open>calculateDistance\<close>, named for the proofs.\<close>

definition haversine_a :: "real \<Rightarrow> real \<Rightarrow> real \<Rightarrow> real \<Rightarrow> real" where
  "haversine_a lat1 lon1 lat2 lon2 =
     sin (((lat2 - lat1) * pi) / 180 / 2) * sin (((lat2 - lat1) * pi) / 180 / 2) +
     cos ((lat1 * pi) / 180) * cos ((lat2 * pi) / 180) *
       sin (((lon2 - lon1) * pi) / 180 / 2) * sin (((lon2 - lon1) * pi) / 180 / 2)"

section \<open>Test points\<close>

text \<open>
  The point of the equator \<open>d\<close> metres east of \<open>(0, 0)\<close>, and a report at a given place and
  time; the concrete inputs of the examples below.
\<close>

definition equatorPoint :: "real \<Rightarrow> Coordinates" where
  "equatorPoint d = \<lparr>latitude = 0, longitude = d * 180 / (6371000 * pi)\<rparr>"

definition sampleReport :: "Coordinates \<Rightarrow> real \<Rightarrow> bool \<Rightarrow> LocationReport" where
  "sampleReport c t m =
     \<lparr>coordinate = c, timestamp = t, accuracy_meters = 5, is_mocked = m, reporter_id = ''u1''\<rparr>"

section \<open>Properties of the location store\<close>

lemma applyUpdate_locations_agree:
  "currentLocation s = lastKnownLocation s \<Longrightarrow>
   currentLocation (applyUpdate u s) = lastKnownLocation (applyUpdate u s)"
  by (cases u)
     (simp_all add: requestPermission_status_def requestPermission_denied_def
        requestPermission_failed_def getCurrentLocation_loading_def
        getCurrentLocation_success_def getCurrentLocation_failed_def
        watchLocation_update_def watchLocation_started_def watchLocation_failed_def
        stopWatching_def setLocation_def clearError_def reset_def Let_def)

lemma runUpdates_reachable: "reachable s \<Longrightarrow> reachable (runUpdates us s)"
  by (induction us arbitrary: s) (auto intro: reachable_step)

lemma applyUpdate_writes_both:
  "(currentLocation (applyUpdate u s) = currentLocation s \<and>
    lastKnownLocation (applyUpdate u s) = lastKnownLocation s)
   \<or> currentLocation (applyUpdate u s) = lastKnownLocation (applyUpdate u s)"
  by (cases u)
     (simp_all add: requestPermission_status_def requestPermission_denied_def
        requestPermission_failed_def getCurrentLocation_loading_def
        getCurrentLocation_success_def getCurrentLocation_failed_def
        watchLocation_update_def watchLocation_started_def watchLocation_failed_def
        stopWatching_def setLocation_def clearError_def reset_def Let_def)

lemma reachable_locations_agree:
  "reachable s \<Longrightarrow> currentLocation s = lastKnownLocation s"
proof (induction rule: reachable.induct)
  case reachable_init
  show ?case by (simp add: initialState_def)
next
  case (reachable_step s u)
  from reachable_step.IH show ?case by (rule applyUpdate_locations_agree)
qed

text \<open>
  Claim C10. In every reachable state of the location store, \<open>currentLocation\<close> equals
  \<open>lastKnownLocation\<close>: both start as \<open>null\<close>, and each update either leaves both as they
  are or writes the same value to both (the success branch of \<open>getCurrentLocation\<close>, the
  \<open>watchLocation\<close> callback, \<open>setLocation\<close> and \<open>reset\<close> do the latter).
\<close>

theorem store_locations_agree:
  "currentLocation initialState = None \<and> lastKnownLocation initialState = None
   \<and> ((currentLocation (applyUpdate u t) = currentLocation t \<and>
         lastKnownLocation (applyUpdate u t) = lastKnownLocation t)
        \<or> currentLocation (applyUpdate u t) = lastKnownLocation (applyUpdate u t))
   \<and> (reachable s \<longrightarrow> currentLocation s = lastKnownLocation s)"
  using applyUpdate_writes_both [of u t] reachable_locations_agree [of s]
  by (simp add: initialState_def)

text \<open>
  The store after \<open>getCurrentLocation\<close> succeeded and \<open>setLocation\<close> was called: both
  fields hold the coordinate given to \<open>setLocation\<close>.
\<close>

theorem store_locations_agree_witness:
  "reachable (runUpdates [GetCurrentLocationLoading,
       GetCurrentLocationSuccess \<lparr>coords_latitude = 10, coords_longitude = 106,
         coords_accuracy = Some 5, coords_heading = None, coords_speed = None\<rparr>,
       SetLocation \<lparr>latitude = 1, longitude = 2\<rparr>] initialState)
   \<and> currentLocation (runUpdates [GetCurrentLocationLoading,
       GetCurrentLocationSuccess \<lparr>coords_latitude = 10, coords_longitude = 106,
         coords_accuracy = Some 5, coords_heading = None, coords_speed = None\<rparr>,
       SetLocation \<lparr>latitude = 1, longitude = 2\<rparr>] initialState)
     = Some \<lparr>latitude = 1, longitude = 2\<rparr>
   \<and> lastKnownLocation (runUpdates [GetCurrentLocationLoading,
       GetCurrentLocationSuccess \<lparr>coords_latitude = 10, coords_longitude = 106,
         coords_accuracy = Some 5, coords_heading = None, coords_speed = None\<rparr>,
       SetLocation \<lparr>latitude = 1, longitude = 2\<rparr>] initialState)
     = Some \<lparr>latitude = 1, longitude = 2\<rparr>"
proof -
  let ?s = "runUpdates [GetCurrentLocationLoading,
       GetCurrentLocationSuccess \<lparr>coords_latitude = 10, coords_longitude = 106,
         coords_accuracy = Some 5, coords_heading = None, coords_speed = None\<rparr>,
       SetLocation \<lparr>latitude = 1, longitude = 2\<rparr>] initialState"
  have r: "reachable ?s"
    by (rule runUpdates_reachable) (rule reachable_init)
  have c: "currentLocation ?s = Some \<lparr>latitude = 1, longitude = 2\<rparr>"
    by (simp add: setLocation_def)
  have "reachable ?s \<longrightarrow> currentLocation ?s = lastKnownLocation ?s"
    using store_locations_agree [of Reset initialState ?s] by blast
  with r c show ?thesis by simp
qed

section \<open>The haversine formula\<close>

lemma sin_half_sq: "sin (x / 2) * sin (x / 2) = (1 - cos x) / (2::real)"
proof -
  have "cos x = cos (2 * (x / 2))" by simp
  also have "\<dots> = 1 - 2 * (sin (x / 2))\<^sup>2" by (rule cos_double_sin)
  finally show ?thesis by (simp add: power2_eq_square)
qed

lemma haversine_a_cosine:
  "haversine_a lat1 lon1 lat2 lon2 = (1 - centralCosine lat1 lon1 lat2 lon2) / 2"
proof -
  define p1 where "p1 = lat1 * pi / 180"
  define p2 where "p2 = lat2 * pi / 180"
  define dl where "dl = (lon2 - lon1) * pi / 180"
  have dp: "(lat2 - lat1) * pi / 180 = p2 - p1"
    by (simp add: p1_def p2_def field_simps)
  have s1: "sin ((p2 - p1) / 2) * sin ((p2 - p1) / 2) = (1 - cos (p2 - p1)) / 2"
    by (rule sin_half_sq)
  have s2: "sin (dl / 2) * sin (dl / 2) = (1 - cos dl) / 2"
    by (rule sin_half_sq)
  have "haversine_a lat1 lon1 lat2 lon2 =
      sin ((p2 - p1) / 2) * sin ((p2 - p1) / 2) + cos p1 * cos p2 * (sin (dl / 2) * sin (dl / 2))"
    unfolding haversine_a_def dp p1_def [symmetric] p2_def [symmetric] dl_def [symmetric]
    by (simp only: mult.assoc)
  also have "\<dots> = (1 - cos (p2 - p1)) / 2 + cos p1 * cos p2 * ((1 - cos dl) / 2)"
    by (simp only: s1 s2)
  also have "\<dots> = (1 - (sin p1 * sin p2 + cos p1 * cos p2 * cos dl)) / 2"
    by (simp add: cos_diff field_simps)
  finally show ?thesis
    by (simp add: centralCosine_def p1_def p2_def dl_def)
qed

lemma centralCosine_bounds: "\<bar>centralCosine lat1 lon1 lat2 lon2\<bar> \<le> 1"
proof -
  define s1 where "s1 = sin (lat1 * pi / 180)"
  define s2 where "s2 = sin (lat2 * pi / 180)"
  define c1 where "c1 = cos (lat1 * pi / 180)"
  define c2 where "c2 = cos (lat2 * pi / 180)"
  define d where "d = cos ((lon2 - lon1) * pi / 180)"
  have u1: "s1\<^sup>2 + c1\<^sup>2 = 1" and u2: "s2\<^sup>2 + c2\<^sup>2 = 1"
    by (simp_all add: s1_def s2_def c1_def c2_def)
  have d1: "\<bar>d\<bar> \<le> 1" by (simp add: d_def abs_le_iff)
  have "\<bar>s1 * s2 + c1 * c2 * d\<bar> \<le> \<bar>s1 * s2\<bar> + \<bar>c1 * c2 * d\<bar>"
    by (rule abs_triangle_ineq)
  also have "\<bar>c1 * c2 * d\<bar> = \<bar>c1 * c2\<bar> * \<bar>d\<bar>" by (simp add: abs_mult)
  also have "\<bar>c1 * c2\<bar> * \<bar>d\<bar> \<le> \<bar>c1 * c2\<bar>"
    using d1 by (simp add: mult_left_le)
  also have "\<bar>s1 * s2\<bar> + \<bar>c1 * c2\<bar> \<le> 1"
  proof -
    have a: "0 \<le> (\<bar>s1\<bar> - \<bar>s2\<bar>)\<^sup>2" and b: "0 \<le> (\<bar>c1\<bar> - \<bar>c2\<bar>)\<^sup>2" by simp_all
    have "2 * (\<bar>s1\<bar> * \<bar>s2\<bar>) \<le> s1\<^sup>2 + s2\<^sup>2"
      using a by (simp add: power2_diff)
    moreover have "2 * (\<bar>c1\<bar> * \<bar>c2\<bar>) \<le> c1\<^sup>2 + c2\<^sup>2"
      using b by (simp add: power2_diff)
    ultimately show ?thesis using u1 u2 by (simp add: abs_mult)
  qed
  finally show ?thesis
    by (simp add: centralCosine_def s1_def s2_def c1_def c2_def d_def)
qed

lemma haversine_a_range:
  "0 \<le> haversine_a lat1 lon1 lat2 lon2" "haversine_a lat1 lon1 lat2 lon2 \<le> 1"
  using centralCosine_bounds [of lat1 lon1 lat2 lon2]
  by (simp_all add: haversine_a_cosine abs_le_iff)

lemma Math_atan2_sin_cos:
  assumes "0 \<le> t" "t \<le> pi / 2"
  shows "Math_atan2 (sin t) (cos t) = t"
proof (cases "t = pi / 2")
  case True
  show ?thesis unfolding True by (simp add: Math_atan2_def)
next
  case False
  with assms have lt: "t < pi / 2" by simp
  with assms have "0 < cos t" by (intro cos_gt_zero_pi) simp_all
  moreover have "arctan (sin t / cos t) = t"
    using arctan_tan [of t] assms lt by (simp add: tan_def)
  ultimately show ?thesis by (simp add: Math_atan2_def)
qed

lemma Math_atan2_sqrt:
  assumes "0 \<le> a" "a \<le> 1"
  shows "2 * Math_atan2 (sqrt a) (sqrt (1 - a)) = arccos (1 - 2 * a)"
proof -
  define t where "t = arcsin (sqrt a)"
  have sq: "0 \<le> sqrt a" "sqrt a \<le> 1" using assms by simp_all
  have m: "- 1 \<le> sqrt a" using sq by linarith
  have t0: "0 \<le> t" unfolding t_def using sq by (intro arcsin_nonneg) simp
  have t1: "t \<le> pi / 2" unfolding t_def by (rule arcsin_ubound [OF m sq(2)])
  have st: "sin t = sqrt a" unfolding t_def by (rule sin_arcsin [OF m sq(2)])
  have "cos t = sqrt (1 - (sqrt a)\<^sup>2)" unfolding t_def by (rule cos_arcsin [OF m sq(2)])
  then have ct: "cos t = sqrt (1 - a)" using assms by simp
  have "Math_atan2 (sqrt a) (sqrt (1 - a)) = t"
    using Math_atan2_sin_cos [OF t0 t1] by (simp add: st ct)
  moreover have "cos (2 * t) = 1 - 2 * a"
    using assms by (simp add: cos_double_sin st)
  then have "arccos (1 - 2 * a) = 2 * t"
    using arccos_cos [of "2 * t"] t0 t1 by simp
  ultimately show ?thesis by simp
qed

lemma calculateDistance_arccos:
  "calculateDistance lat1 lon1 lat2 lon2 =
     6371000 * arccos (centralCosine lat1 lon1 lat2 lon2)"
proof -
  let ?a = "haversine_a lat1 lon1 lat2 lon2"
  have "calculateDistance lat1 lon1 lat2 lon2 =
      6371000 * (2 * Math_atan2 (sqrt ?a) (sqrt (1 - ?a)))"
    unfolding calculateDistance_def haversine_a_def Let_def by (rule refl)
  also have "2 * Math_atan2 (sqrt ?a) (sqrt (1 - ?a)) = arccos (1 - 2 * ?a)"
    by (rule Math_atan2_sqrt) (rule haversine_a_range)+
  also have "1 - 2 * ?a = centralCosine lat1 lon1 lat2 lon2"
    unfolding haversine_a_cosine by (simp add: field_simps)
  finally show ?thesis .
qed

lemma centralCosine_sym:
  "centralCosine lat1 lon1 lat2 lon2 = centralCosine lat2 lon2 lat1 lon1"
proof -
  have e: "(lon2 - lon1) * pi / 180 = - ((lon1 - lon2) * pi / 180)"
    by (simp add: field_simps)
  have "cos ((lon2 - lon1) * pi / 180) = cos ((lon1 - lon2) * pi / 180)"
    unfolding e by (rule cos_minus)
  then show ?thesis by (simp add: centralCosine_def mult.commute)
qed

lemma centralCosine_same: "centralCosine lat lon lat lon = 1"
proof -
  have "sin (lat * pi / 180) * sin (lat * pi / 180) + cos (lat * pi / 180) * cos (lat * pi / 180) = 1"
    using sin_cos_squared_add [of "lat * pi / 180"] by (simp add: power2_eq_square)
  then show ?thesis by (simp add: centralCosine_def)
qed

lemma calculateDistance_range:
  "0 \<le> calculateDistance lat1 lon1 lat2 lon2"
  "calculateDistance lat1 lon1 lat2 lon2 \<le> 6371000 * pi"
proof -
  have b: "- 1 \<le> centralCosine lat1 lon1 lat2 lon2" "centralCosine lat1 lon1 lat2 lon2 \<le> 1"
    using centralCosine_bounds [of lat1 lon1 lat2 lon2] by (simp_all add: abs_le_iff)
  show "0 \<le> calculateDistance lat1 lon1 lat2 lon2"
    using arccos_lbound [OF b] by (simp add: calculateDistance_arccos)
  show "calculateDistance lat1 lon1 lat2 lon2 \<le> 6371000 * pi"
    using arccos_ubound [OF b] by (simp add: calculateDistance_arccos)
qed

lemma calculateDistance_equator:
  assumes "\<bar>lon2 - lon1\<bar> \<le> 180"
  shows "calculateDistance 0 lon1 0 lon2 = 6371000 * (\<bar>lon2 - lon1\<bar> * pi / 180)"
proof -
  have "\<bar>(lon2 - lon1) * pi / 180\<bar> = \<bar>lon2 - lon1\<bar> * pi / 180"
    by (simp add: abs_mult)
  moreover have "\<bar>lon2 - lon1\<bar> * pi / 180 \<le> pi"
    using assms by (simp add: field_simps)
  ultimately have h: "arccos (cos ((lon2 - lon1) * pi / 180)) = \<bar>lon2 - lon1\<bar> * pi / 180"
    using arccos_cos_eq_abs [of "(lon2 - lon1) * pi / 180"] by simp
  have c: "centralCosine 0 lon1 0 lon2 = cos ((lon2 - lon1) * pi / 180)"
    by (simp add: centralCosine_def)
  show ?thesis unfolding calculateDistance_arccos c h by (rule refl)
qed

lemma sin_coeff_values:
  "sin_coeff (Suc 0) = 1" "sin_coeff (Suc (Suc 0)) = 0"
  "sin_coeff (Suc (Suc (Suc 0))) = - 1 / 6" "sin_coeff (Suc (Suc (Suc (Suc 0)))) = 0"
  by (simp_all add: sin_coeff_def)

lemma sin_taylor5:
  "\<bar>sin x - (x - x ^ 3 / 6)\<bar> \<le> \<bar>x\<bar> ^ 5 / 120" for x :: real
proof -
  have s: "(\<Sum>m<5. sin_coeff m * x ^ m) = x - x ^ 3 / 6"
    by (simp add: eval_nat_numeral lessThan_Suc sin_coeff_values)
  have f: "inverse (fact 5) * \<bar>x\<bar> ^ 5 = \<bar>x\<bar> ^ 5 / 120"
    by (simp add: fact_numeral field_simps)
  show ?thesis using Maclaurin_sin_bound [of x 5] unfolding s f .
qed

lemma sin_upper_519: "sin (519 / 1000) < (1 / 2 :: real)"
proof -
  have "sin (519 / 1000 :: real) \<le> 519 / 1000 - (519 / 1000) ^ 3 / 6 + \<bar>519 / 1000\<bar> ^ 5 / 120"
    using sin_taylor5 [of "519 / 1000"] by (simp only: abs_le_iff) linarith
  also have "\<dots> < 1 / 2" by (simp add: power_divide)
  finally show ?thesis .
qed

lemma sin_lower_529: "(1 / 2 :: real) < sin (529 / 1000)"
proof -
  have "(1 / 2 :: real) < 529 / 1000 - (529 / 1000) ^ 3 / 6 - \<bar>529 / 1000\<bar> ^ 5 / 120"
    by (simp add: power_divide)
  also have "\<dots> \<le> sin (529 / 1000)"
    using sin_taylor5 [of "529 / 1000"] by (simp only: abs_le_iff) linarith
  finally show ?thesis .
qed

lemma pi_lower: "(3114 / 1000 :: real) < pi"
proof (rule ccontr)
  assume "\<not> 3114 / 1000 < pi"
  then have le: "pi / 6 \<le> 519 / 1000" by simp
  have "sin (pi / 6) \<le> sin (519 / 1000 :: real)"
  proof (rule sin_monotone_2pi_le)
    show "- (pi / 2) \<le> pi / 6" by simp
    show "pi / 6 \<le> 519 / 1000" by (rule le)
    show "519 / 1000 \<le> pi / 2" using pi_ge_two by simp
  qed
  with sin_upper_519 show False by (simp add: sin_30)
qed

lemma pi_upper: "pi < (3174 / 1000 :: real)"
proof (rule ccontr)
  assume "\<not> pi < 3174 / 1000"
  then have le: "529 / 1000 \<le> pi / 6" by simp
  have "sin (529 / 1000 :: real) \<le> sin (pi / 6)"
  proof (rule sin_monotone_2pi_le)
    show "- (pi / 2) \<le> (529 / 1000 :: real)" using pi_ge_two by simp
    show "529 / 1000 \<le> pi / 6" by (rule le)
    show "pi / 6 \<le> pi / 2" by simp
  qed
  with sin_lower_529 show False by (simp add: sin_30)
qed

lemma equatorPoint_valid:
  assumes "0 \<le> d" "d \<le> 6371000"
  shows "validCoordinate (equatorPoint d)"
proof -
  have "d * 180 / (6371000 * pi) \<le> 180"
  proof -
    have "(6371000::real) * 1 \<le> 6371000 * pi" using pi_ge_two by simp
    with assms have "d \<le> 6371000 * pi" by linarith
    then show ?thesis by (simp add: field_simps)
  qed
  moreover have "0 \<le> d * 180 / (6371000 * pi)" using assms by simp
  ultimately show ?thesis by (simp add: validCoordinate_def equatorPoint_def)
qed

lemma equatorPoint_distance:
  assumes "0 \<le> d" "d \<le> 6371000"
  shows "distanceMeters (equatorPoint 0) (equatorPoint d) = d"
    and "distanceMeters (equatorPoint d) (equatorPoint 0) = d"
proof -
  let ?x = "d * 180 / (6371000 * pi)"
  have x0: "0 \<le> ?x" using assms by simp
  have "(6371000::real) * 1 \<le> 6371000 * pi" using pi_ge_two by simp
  with assms have "d \<le> 6371000 * pi" by linarith
  then have x1: "?x \<le> 180" by (simp add: field_simps)
  have "calculateDistance 0 0 0 ?x = 6371000 * (\<bar>?x - 0\<bar> * pi / 180)"
    by (rule calculateDistance_equator) (use x0 x1 in simp)
  also have "\<dots> = d" using x0 by (simp add: field_simps)
  finally show "distanceMeters (equatorPoint 0) (equatorPoint d) = d"
    by (simp add: distanceMeters_def equatorPoint_def)
  then show "distanceMeters (equatorPoint d) (equatorPoint 0) = d"
    by (simp add: distanceMeters_def centralCosine_sym calculateDistance_arccos)
qed

section \<open>The claims about the guard\<close>

lemma evaluateReport_Inr:
  "evaluateReport cfg report prev n ps = Inr v \<longleftrightarrow>
     validInputs report prev ps \<and>
     v = \<lparr>flagged = ((if mockedCheck report then {MOCKED} else {}) \<union>
                  (if speedCheck cfg report prev then {IMPOSSIBLE_SPEED} else {}) \<union>
                  (if rateCheck cfg n then {RATE_LIMIT_EXCEEDED} else {}) \<union>
                  (if proximityCheck cfg report ps then {TOO_CLOSE_TO_EXISTING} else {}) \<noteq> {}),
          reasons = (if mockedCheck report then {MOCKED} else {}) \<union>
                  (if speedCheck cfg report prev then {IMPOSSIBLE_SPEED} else {}) \<union>
                  (if rateCheck cfg n then {RATE_LIMIT_EXCEEDED} else {}) \<union>
                  (if proximityCheck cfg report ps then {TOO_CLOSE_TO_EXISTING} else {})\<rparr>"
  by (auto simp add: evaluateReport_def Let_def)

lemma evaluateReport_reasons_iff:
  assumes "evaluateReport cfg report prev n ps = Inr v"
  shows "MOCKED \<in> reasons v \<longleftrightarrow> mockedCheck report"
    and "IMPOSSIBLE_SPEED \<in> reasons v \<longleftrightarrow> speedCheck cfg report prev"
    and "RATE_LIMIT_EXCEEDED \<in> reasons v \<longleftrightarrow> rateCheck cfg n"
    and "TOO_CLOSE_TO_EXISTING \<in> reasons v \<longleftrightarrow> proximityCheck cfg report ps"
    and "flagged v \<longleftrightarrow> reasons v \<noteq> {}"
  using assms unfolding evaluateReport_Inr by (simp_all split: if_splits)

text \<open>
  Claim C1. On valid input \<open>evaluateReport\<close> returns a verdict; when the report has
  \<open>is_mocked = true\<close> its reasons contain \<open>MOCKED\<close>, whatever the other arguments are;
  \<open>flagged\<close> holds exactly when the set of reasons is non-empty; and the four checks are
  independent: each reason is in the result exactly when its own check is triggered.
\<close>

theorem evaluateReport_mocked:
  assumes "validInputs report prev ps"
  shows "\<exists>v. evaluateReport cfg report prev n ps = Inr v \<and>
           (is_mocked report \<longrightarrow> MOCKED \<in> reasons v) \<and>
           (flagged v \<longleftrightarrow> reasons v \<noteq> {}) \<and>
           (MOCKED \<in> reasons v \<longleftrightarrow> is_mocked report) \<and>
           (IMPOSSIBLE_SPEED \<in> reasons v \<longleftrightarrow> speedCheck cfg report prev) \<and>
           (RATE_LIMIT_EXCEEDED \<in> reasons v \<longleftrightarrow> rateCheck cfg n) \<and>
           (TOO_CLOSE_TO_EXISTING \<in> reasons v \<longleftrightarrow> proximityCheck cfg report ps)"
proof -
  from assms obtain v where v: "evaluateReport cfg report prev n ps = Inr v"
    by (simp add: evaluateReport_def Let_def)
  show ?thesis
    using v evaluateReport_reasons_iff [OF v] by (auto simp add: mockedCheck_def)
qed

text \<open>A mocked report in Ho Chi Minh City, with no history: flagged, with \<open>MOCKED\<close>.\<close>

theorem evaluateReport_mocked_witness:
  "validInputs (sampleReport \<lparr>latitude = 10, longitude = 106\<rparr> 0 True) None []
   \<and> (\<exists>v. evaluateReport (defaultConfig 1)
              (sampleReport \<lparr>latitude = 10, longitude = 106\<rparr> 0 True) None 0 [] = Inr v
          \<and> MOCKED \<in> reasons v \<and> flagged v)"
proof -
  have h: "validInputs (sampleReport \<lparr>latitude = 10, longitude = 106\<rparr> 0 True) None []"
    by (simp add: validInputs_def sampleReport_def validCoordinate_def)
  show ?thesis
    using h evaluateReport_mocked [OF h, of "defaultConfig 1" 0]
    by (auto simp add: sampleReport_def)
qed

text \<open>
  Claim C2, amended. With a previous report and the threshold of 5000 m/s, the reasons
  contain \<open>IMPOSSIBLE_SPEED\<close> exactly when either \<open>elapsedSeconds = 0\<close> and the two
  coordinates are at a nonzero distance (the edge case: infinite speed), or
  \<open>distanceMeters(prev.coordinate, report.coordinate) / max(elapsedSeconds, epsilon)\<close>
  exceeds 5000.
\<close>

theorem evaluateReport_speed:
  assumes "evaluateReport cfg report (Some prev) n ps = Inr v"
    and "maxSpeed cfg = 5000"
  shows "IMPOSSIBLE_SPEED \<in> reasons v \<longleftrightarrow>
           (elapsedSeconds prev report = 0 \<and>
              distanceMeters (coordinate prev) (coordinate report) \<noteq> 0)
           \<or> 5000 < distanceMeters (coordinate prev) (coordinate report)
                      / max (elapsedSeconds prev report) (epsilon cfg)"
  using evaluateReport_reasons_iff(2) [OF assms(1)] assms(2)
  by (auto simp add: speedCheck_def Let_def)

text \<open>A previous report 10,000 m away, one second earlier: 10,000 m/s, flagged.\<close>

theorem evaluateReport_speed_witness:
  "evaluateReport (defaultConfig (1 / 1000)) (sampleReport (equatorPoint 10000) 1 False)
       (Some (sampleReport (equatorPoint 0) 0 False)) 0 []
     = Inr \<lparr>flagged = True, reasons = {IMPOSSIBLE_SPEED}\<rparr>
   \<and> maxSpeed (defaultConfig (1 / 1000)) = 5000
   \<and> distanceMeters (equatorPoint 0) (equatorPoint 10000) = 10000
   \<and> elapsedSeconds (sampleReport (equatorPoint 0) 0 False)
        (sampleReport (equatorPoint 10000) 1 False) = 1
   \<and> IMPOSSIBLE_SPEED \<in> reasons \<lparr>flagged = True, reasons = {IMPOSSIBLE_SPEED}\<rparr>"
proof -
  have d: "distanceMeters (equatorPoint 0) (equatorPoint 10000) = 10000"
    by (rule equatorPoint_distance) simp_all
  have v: "validCoordinate (equatorPoint 0)" "validCoordinate (equatorPoint 10000)"
    by (rule equatorPoint_valid; simp)+
  have e: "evaluateReport (defaultConfig (1 / 1000)) (sampleReport (equatorPoint 10000) 1 False)
       (Some (sampleReport (equatorPoint 0) 0 False)) 0 []
     = Inr \<lparr>flagged = True, reasons = {IMPOSSIBLE_SPEED}\<rparr>"
    using d v
    by (simp add: evaluateReport_def validInputs_def sampleReport_def mockedCheck_def
        speedCheck_def rateCheck_def proximityCheck_def defaultConfig_def elapsedSeconds_def)
  have m: "maxSpeed (defaultConfig (1 / 1000)) = 5000" by (simp add: defaultConfig_def)
  show ?thesis
    using evaluateReport_speed [OF e m] e m d
    by (simp add: elapsedSeconds_def sampleReport_def)
qed

text \<open>
  Claim C2 as stated fails: the formula alone does not decide the reason. With
  \<open>epsilon\<close> = 0.001 s, a report 1 m from the previous one with the same timestamp is
  flagged by the edge case, although 1 / max(0, 0.001) = 1000 does not exceed 5000.
\<close>

theorem evaluateReport_speed_counterexample:
  "evaluateReport (defaultConfig (1 / 1000)) (sampleReport (equatorPoint 1) 0 False)
       (Some (sampleReport (equatorPoint 0) 0 False)) 0 []
     = Inr \<lparr>flagged = True, reasons = {IMPOSSIBLE_SPEED}\<rparr>
   \<and> distanceMeters (coordinate (sampleReport (equatorPoint 0) 0 False))
        (coordinate (sampleReport (equatorPoint 1) 0 False))
      / max (timestamp (sampleReport (equatorPoint 1) 0 False)
             - timestamp (sampleReport (equatorPoint 0) 0 False))
            (epsilon (defaultConfig (1 / 1000))) = 1000
   \<and> \<not> 5000 < distanceMeters (coordinate (sampleReport (equatorPoint 0) 0 False))
                  (coordinate (sampleReport (equatorPoint 1) 0 False))
                / max (timestamp (sampleReport (equatorPoint 1) 0 False)
                       - timestamp (sampleReport (equatorPoint 0) 0 False))
                      (epsilon (defaultConfig (1 / 1000)))"
proof -
  have d: "distanceMeters (equatorPoint 0) (equatorPoint 1) = 1"
    by (rule equatorPoint_distance) simp_all
  have v: "validCoordinate (equatorPoint 0)" "validCoordinate (equatorPoint 1)"
    by (rule equatorPoint_valid; simp)+
  show ?thesis
    using d v
    by (simp add: evaluateReport_def validInputs_def sampleReport_def mockedCheck_def
        speedCheck_def rateCheck_def proximityCheck_def defaultConfig_def elapsedSeconds_def)
qed

text \<open>
  Claim C7. The reasons contain \<open>RATE_LIMIT_EXCEEDED\<close> exactly when
  \<open>recentReportsToday\<close> is greater than or equal to the configured daily cap.
\<close>

theorem evaluateReport_rate:
  assumes "evaluateReport cfg report prev n ps = Inr v"
  shows "RATE_LIMIT_EXCEEDED \<in> reasons v \<longleftrightarrow> dailyCap cfg \<le> n"
  using evaluateReport_reasons_iff(3) [OF assms] by (simp add: rateCheck_def)

text \<open>With the cap 3: three reports today are flagged, two are not.\<close>

theorem evaluateReport_rate_witness:
  "evaluateReport (defaultConfig 1) (sampleReport \<lparr>latitude = 10, longitude = 106\<rparr> 0 False)
       None 3 [] = Inr \<lparr>flagged = True, reasons = {RATE_LIMIT_EXCEEDED}\<rparr>
   \<and> evaluateReport (defaultConfig 1) (sampleReport \<lparr>latitude = 10, longitude = 106\<rparr> 0 False)
       None 2 [] = Inr \<lparr>flagged = False, reasons = {}\<rparr>
   \<and> dailyCap (defaultConfig 1) = 3
   \<and> RATE_LIMIT_EXCEEDED \<in> reasons \<lparr>flagged = True, reasons = {RATE_LIMIT_EXCEEDED}\<rparr>
   \<and> RATE_LIMIT_EXCEEDED \<notin> reasons \<lparr>flagged = False, reasons = {}\<rparr>"
proof -
  let ?r = "sampleReport \<lparr>latitude = 10, longitude = 106\<rparr> 0 False"
  have e3: "evaluateReport (defaultConfig 1) ?r None 3 []
      = Inr \<lparr>flagged = True, reasons = {RATE_LIMIT_EXCEEDED}\<rparr>"
    by (simp add: evaluateReport_def validInputs_def sampleReport_def mockedCheck_def
        speedCheck_def rateCheck_def proximityCheck_def defaultConfig_def validCoordinate_def)
  have e2: "evaluateReport (defaultConfig 1) ?r None 2 []
      = Inr \<lparr>flagged = False, reasons = {}\<rparr>"
    by (simp add: evaluateReport_def validInputs_def sampleReport_def mockedCheck_def
        speedCheck_def rateCheck_def proximityCheck_def defaultConfig_def validCoordinate_def)
  show ?thesis
    using evaluateReport_rate [OF e3] evaluateReport_rate [OF e2] e3 e2
    by (simp add: defaultConfig_def)
qed

text \<open>
  Claim C8. The reasons contain \<open>TOO_CLOSE_TO_EXISTING\<close> exactly when some coordinate of
  \<open>recentArtifactPlacements\<close> lies within the configured minimum distance of the report's
  coordinate.
\<close>

theorem evaluateReport_proximity:
  assumes "evaluateReport cfg report prev n ps = Inr v"
  shows "TOO_CLOSE_TO_EXISTING \<in> reasons v \<longleftrightarrow>
           (\<exists>p \<in> set ps. distanceMeters p (coordinate report) \<le> minDistance cfg)"
  using evaluateReport_reasons_iff(4) [OF assms] by (simp add: proximityCheck_def)

text \<open>With the cap 20 m: a placement 15 m away is flagged, one 25 m away is not.\<close>

theorem evaluateReport_proximity_witness:
  "evaluateReport (defaultConfig 1) (sampleReport (equatorPoint 0) 0 False)
       None 0 [equatorPoint 15] = Inr \<lparr>flagged = True, reasons = {TOO_CLOSE_TO_EXISTING}\<rparr>
   \<and> evaluateReport (defaultConfig 1) (sampleReport (equatorPoint 0) 0 False)
       None 0 [equatorPoint 25] = Inr \<lparr>flagged = False, reasons = {}\<rparr>
   \<and> minDistance (defaultConfig 1) = 20
   \<and> distanceMeters (equatorPoint 15) (equatorPoint 0) = 15
   \<and> distanceMeters (equatorPoint 25) (equatorPoint 0) = 25
   \<and> TOO_CLOSE_TO_EXISTING \<in> reasons \<lparr>flagged = True, reasons = {TOO_CLOSE_TO_EXISTING}\<rparr>
   \<and> TOO_CLOSE_TO_EXISTING \<notin> reasons \<lparr>flagged = False, reasons = {}\<rparr>"
proof -
  let ?r = "sampleReport (equatorPoint 0) 0 False"
  have d15: "distanceMeters (equatorPoint 15) (equatorPoint 0) = 15"
    by (rule equatorPoint_distance) simp_all
  have d25: "distanceMeters (equatorPoint 25) (equatorPoint 0) = 25"
    by (rule equatorPoint_distance) simp_all
  have v: "validCoordinate (equatorPoint 0)" "validCoordinate (equatorPoint 15)"
    "validCoordinate (equatorPoint 25)"
    by (rule equatorPoint_valid; simp)+
  have e15: "evaluateReport (defaultConfig 1) ?r None 0 [equatorPoint 15]
      = Inr \<lparr>flagged = True, reasons = {TOO_CLOSE_TO_EXISTING}\<rparr>"
    using d15 v
    by (simp add: evaluateReport_def validInputs_def sampleReport_def mockedCheck_def
        speedCheck_def rateCheck_def proximityCheck_def defaultConfig_def)
  have e25: "evaluateReport (defaultConfig 1) ?r None 0 [equatorPoint 25]
      = Inr \<lparr>flagged = False, reasons = {}\<rparr>"
    using d25 v
    by (simp add: evaluateReport_def validInputs_def sampleReport_def mockedCheck_def
        speedCheck_def rateCheck_def proximityCheck_def defaultConfig_def)
  show ?thesis
    using evaluateReport_proximity [OF e15] evaluateReport_proximity [OF e25] e15 e25 d15 d25
    by (simp add: defaultConfig_def)
qed

lemma calculateDistance_meridian:
  assumes "\<bar>lat2 - lat1\<bar> \<le> 180"
  shows "calculateDistance lat1 lon lat2 lon = 6371000 * (\<bar>lat2 - lat1\<bar> * pi / 180)"
proof -
  have e: "(lat2 - lat1) * pi / 180 = lat2 * pi / 180 - lat1 * pi / 180"
    by (simp add: field_simps)
  have c: "centralCosine lat1 lon lat2 lon = cos ((lat2 - lat1) * pi / 180)"
    unfolding e by (simp add: centralCosine_def cos_diff)
  have "\<bar>(lat2 - lat1) * pi / 180\<bar> = \<bar>lat2 - lat1\<bar> * pi / 180"
    by (simp add: abs_mult)
  moreover have "\<bar>lat2 - lat1\<bar> * pi / 180 \<le> pi"
    using assms by (simp add: field_simps)
  ultimately have h: "arccos (cos ((lat2 - lat1) * pi / 180)) = \<bar>lat2 - lat1\<bar> * pi / 180"
    using arccos_cos_eq_abs [of "(lat2 - lat1) * pi / 180"] by simp
  show ?thesis unfolding calculateDistance_arccos c h by (rule refl)
qed

text \<open>
  Claim C3, amended. \<open>isWithinRadius\<close> never fails. With no current location it returns
  false; with one it returns \<open>distance \<le> radiusMeters\<close> for every radius, the boundary
  included: a distance equal to the radius is within it. A negative radius therefore gives
  false rather than \<open>InvalidRadius\<close>. For a positive radius and coordinates in range the
  result is the \<open>within_radius\<close> the specification asks for.
\<close>

theorem isWithinRadius_no_failure:
  "isWithinRadius None targetLat targetLng radiusMeters = False
   \<and> isWithinRadius (Some user) (latitude target) (longitude target) radiusMeters
       = (distanceMeters user target \<le> radiusMeters)
   \<and> isWithinRadius (Some user) (latitude target) (longitude target)
        (distanceMeters user target) = True
   \<and> (radiusMeters < 0 \<longrightarrow>
        isWithinRadius (Some user) (latitude target) (longitude target) radiusMeters = False)
   \<and> (0 < radiusMeters \<and> validCoordinate user \<and> validCoordinate target \<longrightarrow>
        spec_isWithinRadius user target radiusMeters
          = Inr \<lparr>within_radius =
                    isWithinRadius (Some user) (latitude target) (longitude target) radiusMeters,
                  distance_meters = distanceMeters user target\<rparr>)"
proof -
  have "0 \<le> distanceMeters user target"
    by (simp add: distanceMeters_def calculateDistance_range)
  then show ?thesis
    by (auto simp add: isWithinRadius_def distanceMeters_def spec_isWithinRadius_def Let_def)
qed

text \<open>Two points of the equator 30 m apart, with the radii -1 and 50.\<close>

theorem isWithinRadius_no_failure_witness:
  "isWithinRadius (Some (equatorPoint 0)) (latitude (equatorPoint 30)) (longitude (equatorPoint 30))
      (- 1) = False
   \<and> (- 1 :: real) < 0
   \<and> (0 :: real) < 50 \<and> validCoordinate (equatorPoint 0) \<and> validCoordinate (equatorPoint 30)
   \<and> distanceMeters (equatorPoint 0) (equatorPoint 30) = 30
   \<and> spec_isWithinRadius (equatorPoint 0) (equatorPoint 30) 50
        = Inr \<lparr>within_radius = True, distance_meters = 30\<rparr>
   \<and> isWithinRadius (Some (equatorPoint 0)) (latitude (equatorPoint 30))
        (longitude (equatorPoint 30)) 50 = True"
proof -
  have d: "distanceMeters (equatorPoint 0) (equatorPoint 30) = 30"
    by (rule equatorPoint_distance) simp_all
  have v: "validCoordinate (equatorPoint 0)" "validCoordinate (equatorPoint 30)"
    by (rule equatorPoint_valid; simp)+
  show ?thesis
    using isWithinRadius_no_failure [of 0 0 "- 1" "equatorPoint 0" "equatorPoint 30"]
      isWithinRadius_no_failure [of 0 0 50 "equatorPoint 0" "equatorPoint 30"] d v
    by simp
qed

text \<open>
  Claim C3 as stated fails: where the specification's wording fails with
  \<open>InvalidRadius\<close> (radius 0 and radius -1), the code returns a boolean: true at distance 0
  and radius 0, false at radius -1.
\<close>

theorem isWithinRadius_counterexample:
  "spec_isWithinRadius \<lparr>latitude = 0, longitude = 0\<rparr> \<lparr>latitude = 0, longitude = 0\<rparr> 0
      = Inl InvalidRadius
   \<and> isWithinRadius (Some \<lparr>latitude = 0, longitude = 0\<rparr>) 0 0 0 = True
   \<and> spec_isWithinRadius \<lparr>latitude = 0, longitude = 0\<rparr> \<lparr>latitude = 0, longitude = 0\<rparr> (- 1)
      = Inl InvalidRadius
   \<and> isWithinRadius (Some \<lparr>latitude = 0, longitude = 0\<rparr>) 0 0 (- 1) = False"
proof -
  have "calculateDistance 0 0 0 0 = 0"
    by (simp add: calculateDistance_arccos centralCosine_same)
  then show ?thesis
    by (simp add: spec_isWithinRadius_def isWithinRadius_def)
qed

text \<open>
  Claim C4. The distance is symmetric, \<open>distanceMeters(a, b) = distanceMeters(b, a)\<close>, and
  the distance of a coordinate to itself is 0; for all coordinates, in range or not.
\<close>

theorem distanceMeters_symmetric:
  "distanceMeters a b = distanceMeters b a \<and> distanceMeters a a = 0
   \<and> calculateDistance lat1 lon1 lat2 lon2 = calculateDistance lat2 lon2 lat1 lon1
   \<and> calculateDistance lat1 lon1 lat1 lon1 = 0"
proof -
  have s: "calculateDistance x1 y1 x2 y2 = calculateDistance x2 y2 x1 y1" for x1 y1 x2 y2
    unfolding calculateDistance_arccos by (simp add: centralCosine_sym [of x1 y1 x2 y2])
  have z: "calculateDistance x y x y = 0" for x y
    by (simp add: calculateDistance_arccos centralCosine_same)
  show ?thesis
    unfolding distanceMeters_def using s z by blast
qed

text \<open>
  Claim C5. \<open>calculateDistance\<close> is the great-circle distance on a sphere of radius
  6,371,000 m. From \<open>(0, 0)\<close> to \<open>(0, 1)\<close> it is \<open>6371000 \<pi> / 180\<close>, within 1% of
  111,320 m; and for every two coordinates it equals the great-circle distance, hence is
  within 0.5% of it (at any distance, so also below 50 km).
\<close>

theorem calculateDistance_haversine:
  "calculateDistance 0 0 0 1 = 6371000 * pi / 180
   \<and> \<bar>calculateDistance 0 0 0 1 - 111320\<bar> \<le> 111320 / 100
   \<and> calculateDistance lat1 lon1 lat2 lon2 = greatCircleDistance lat1 lon1 lat2 lon2
   \<and> \<bar>calculateDistance lat1 lon1 lat2 lon2 - greatCircleDistance lat1 lon1 lat2 lon2\<bar>
        \<le> 5 / 1000 * greatCircleDistance lat1 lon1 lat2 lon2"
proof -
  have e: "calculateDistance 0 0 0 1 = 6371000 * (\<bar>1 - 0\<bar> * pi / 180)"
    by (rule calculateDistance_equator) simp
  then have e': "calculateDistance 0 0 0 1 = 6371000 * pi / 180" by simp
  have b: "\<bar>6371000 * pi / 180 - 111320\<bar> \<le> (111320 / 100 :: real)"
    using pi_lower pi_upper by linarith
  have g: "calculateDistance lat1 lon1 lat2 lon2 = greatCircleDistance lat1 lon1 lat2 lon2"
    by (simp add: greatCircleDistance_def calculateDistance_arccos)
  have n: "0 \<le> greatCircleDistance lat1 lon1 lat2 lon2"
    unfolding g [symmetric] by (rule calculateDistance_range)
  have b': "\<bar>calculateDistance 0 0 0 1 - 111320\<bar> \<le> 111320 / 100"
    unfolding e' by (rule b)
  have z: "\<bar>calculateDistance lat1 lon1 lat2 lon2 - greatCircleDistance lat1 lon1 lat2 lon2\<bar>
        \<le> 5 / 1000 * greatCircleDistance lat1 lon1 lat2 lon2"
    unfolding g using n by simp
  from e' b' g z show ?thesis by (intro conjI)
qed

lemma lonDegPerChunk_pos:
  assumes "0 < s" "- 90 < orig" "orig < 90"
  shows "0 < lonDegPerChunk s orig"
proof -
  have lo: "pi * (- 90) < pi * orig" using assms by (intro mult_strict_left_mono) simp_all
  have hi: "pi * orig < pi * 90" using assms by (intro mult_strict_left_mono) simp_all
  have "- (pi / 2) < orig * pi / 180" "orig * pi / 180 < pi / 2"
    using lo hi by (simp_all add: field_simps)
  then have "0 < cos (orig * pi / 180)" by (rule cos_gt_zero_pi)
  with assms show ?thesis by (simp add: lonDegPerChunk_def)
qed

lemma floor_cell:
  fixes x w :: real
  assumes "0 < w" "of_int k * w \<le> x" "x < (of_int k + 1) * w"
  shows "\<lfloor>x / w\<rfloor> = k"
proof (rule floor_unique)
  show "of_int k \<le> x / w" using assms by (simp add: field_simps)
  show "x / w < of_int k + 1" using assms by (simp add: field_simps)
qed

lemma floor_apart:
  fixes x w d :: real
  assumes "0 < w" "w \<le> d"
  shows "\<lfloor>x / w\<rfloor> \<noteq> \<lfloor>(x + d) / w\<rfloor>"
proof -
  have "1 \<le> d / w" using assms by (simp add: field_simps)
  then have "x / w + 1 \<le> (x + d) / w" by (simp add: add_divide_distrib)
  then have "\<lfloor>x / w + 1\<rfloor> \<le> \<lfloor>(x + d) / w\<rfloor>" by (rule floor_mono)
  then show ?thesis by simp
qed

text \<open>
  Claim C6. For a valid coordinate \<open>chunkOf\<close> returns
  \<open>chunk_x = floor(longitude / (chunkSizeMeters / (111320 cos(origin))))\<close> and
  \<open>chunk_y = floor(latitude / (chunkSizeMeters / 110540))\<close>, also for negative coordinates.
  With a positive chunk size and an origin latitude strictly between -90 and 90 degrees:
  two coordinates of the same cell \<open>(k, j)\<close> of the grid have the same chunk \<open>(k, j)\<close>; and
  two coordinates that are \<open>d\<close> metres apart along the longitude (in the grid's metres per
  degree) with \<open>d\<close> at least the chunk size, such as 150 m for 100 m chunks, have
  different \<open>chunk_x\<close>.
\<close>

theorem chunkOf_floor:
  "(validCoordinate a \<longrightarrow>
      chunkOf a s orig =
        Inr \<lparr>chunk_x = \<lfloor>longitude a / (s / (111320 * cos (orig * pi / 180)))\<rfloor>,
             chunk_y = \<lfloor>latitude a / (s / 110540)\<rfloor>\<rparr>)
   \<and> (validCoordinate a \<and> validCoordinate b \<and> 0 < s \<and> - 90 < orig \<and> orig < 90
        \<and> of_int k * lonDegPerChunk s orig \<le> longitude a
        \<and> longitude a < (of_int k + 1) * lonDegPerChunk s orig
        \<and> of_int k * lonDegPerChunk s orig \<le> longitude b
        \<and> longitude b < (of_int k + 1) * lonDegPerChunk s orig
        \<and> of_int j * latDegPerChunk s \<le> latitude a
        \<and> latitude a < (of_int j + 1) * latDegPerChunk s
        \<and> of_int j * latDegPerChunk s \<le> latitude b
        \<and> latitude b < (of_int j + 1) * latDegPerChunk s \<longrightarrow>
      chunkOf a s orig = Inr \<lparr>chunk_x = k, chunk_y = j\<rparr>
      \<and> chunkOf b s orig = chunkOf a s orig)
   \<and> (validCoordinate a \<and> validCoordinate b \<and> 0 < s \<and> - 90 < orig \<and> orig < 90
        \<and> s \<le> d \<and> longitude b = longitude a + d / (111320 * cos (orig * pi / 180)) \<longrightarrow>
      (\<exists>ca cb. chunkOf a s orig = Inr ca \<and> chunkOf b s orig = Inr cb
         \<and> chunk_x ca \<noteq> chunk_x cb))"
proof (intro conjI impI)
  assume "validCoordinate a"
  then show "chunkOf a s orig =
        Inr \<lparr>chunk_x = \<lfloor>longitude a / (s / (111320 * cos (orig * pi / 180)))\<rfloor>,
             chunk_y = \<lfloor>latitude a / (s / 110540)\<rfloor>\<rparr>"
    by (simp add: chunkOf_def lonDegPerChunk_def latDegPerChunk_def)
next
  assume h: "validCoordinate a \<and> validCoordinate b \<and> 0 < s \<and> - 90 < orig \<and> orig < 90
        \<and> of_int k * lonDegPerChunk s orig \<le> longitude a
        \<and> longitude a < (of_int k + 1) * lonDegPerChunk s orig
        \<and> of_int k * lonDegPerChunk s orig \<le> longitude b
        \<and> longitude b < (of_int k + 1) * lonDegPerChunk s orig
        \<and> of_int j * latDegPerChunk s \<le> latitude a
        \<and> latitude a < (of_int j + 1) * latDegPerChunk s
        \<and> of_int j * latDegPerChunk s \<le> latitude b
        \<and> latitude b < (of_int j + 1) * latDegPerChunk s"
  then have lp: "0 < lonDegPerChunk s orig" by (simp add: lonDegPerChunk_pos)
  from h have tp: "0 < latDegPerChunk s" by (simp add: latDegPerChunk_def)
  from h lp have xa: "\<lfloor>longitude a / lonDegPerChunk s orig\<rfloor> = k"
    by (intro floor_cell) simp_all
  from h lp have xb: "\<lfloor>longitude b / lonDegPerChunk s orig\<rfloor> = k"
    by (intro floor_cell) simp_all
  from h tp have ya: "\<lfloor>latitude a / latDegPerChunk s\<rfloor> = j"
    by (intro floor_cell) simp_all
  from h tp have yb: "\<lfloor>latitude b / latDegPerChunk s\<rfloor> = j"
    by (intro floor_cell) simp_all
  from h xa ya show "chunkOf a s orig = Inr \<lparr>chunk_x = k, chunk_y = j\<rparr>"
    by (simp add: chunkOf_def)
  from h xa ya xb yb show "chunkOf b s orig = chunkOf a s orig"
    by (simp add: chunkOf_def)
next
  assume h: "validCoordinate a \<and> validCoordinate b \<and> 0 < s \<and> - 90 < orig \<and> orig < 90
        \<and> s \<le> d \<and> longitude b = longitude a + d / (111320 * cos (orig * pi / 180))"
  then have lp: "0 < lonDegPerChunk s orig" by (simp add: lonDegPerChunk_pos)
  from h have "0 < s" by simp
  with lp have cp: "0 < 111320 * cos (orig * pi / 180)"
    by (simp add: lonDegPerChunk_def zero_less_divide_iff)
  from h cp have "lonDegPerChunk s orig \<le> d / (111320 * cos (orig * pi / 180))"
    by (simp add: lonDegPerChunk_def divide_right_mono)
  with lp have "\<lfloor>longitude a / lonDegPerChunk s orig\<rfloor> \<noteq>
      \<lfloor>(longitude a + d / (111320 * cos (orig * pi / 180))) / lonDegPerChunk s orig\<rfloor>"
    by (rule floor_apart)
  with h show "\<exists>ca cb. chunkOf a s orig = Inr ca \<and> chunkOf b s orig = Inr cb
         \<and> chunk_x ca \<noteq> chunk_x cb"
    by (simp add: chunkOf_def)
qed

text \<open>
  Chunks of 100 m at the equator: \<open>(0, 0)\<close> and the point 50 m north-east of it are in
  chunk \<open>(0, 0)\<close>; the point 150 m east is in chunk \<open>(1, 0)\<close>; the point 50 m south-west
  is in chunk \<open>(-1, -1)\<close>.
\<close>

theorem chunkOf_floor_witness:
  "validCoordinate \<lparr>latitude = 0, longitude = 0\<rparr>
   \<and> validCoordinate \<lparr>latitude = 50 / 110540, longitude = 50 / 111320\<rparr>
   \<and> validCoordinate \<lparr>latitude = 0, longitude = 150 / 111320\<rparr>
   \<and> validCoordinate \<lparr>latitude = - 50 / 110540, longitude = - 50 / 111320\<rparr>
   \<and> lonDegPerChunk 100 0 = 100 / 111320 \<and> latDegPerChunk 100 = 100 / 110540
   \<and> chunkOf \<lparr>latitude = 0, longitude = 0\<rparr> 100 0 = Inr \<lparr>chunk_x = 0, chunk_y = 0\<rparr>
   \<and> chunkOf \<lparr>latitude = 50 / 110540, longitude = 50 / 111320\<rparr> 100 0
        = Inr \<lparr>chunk_x = 0, chunk_y = 0\<rparr>
   \<and> chunkOf \<lparr>latitude = 0, longitude = 150 / 111320\<rparr> 100 0
        = Inr \<lparr>chunk_x = 1, chunk_y = 0\<rparr>
   \<and> chunkOf \<lparr>latitude = - 50 / 110540, longitude = - 50 / 111320\<rparr> 100 0
        = Inr \<lparr>chunk_x = - 1, chunk_y = - 1\<rparr>"
proof -
  have l: "lonDegPerChunk 100 0 = 100 / 111320" "latDegPerChunk 100 = 100 / 110540"
    by (simp_all add: lonDegPerChunk_def latDegPerChunk_def)
  have v: "validCoordinate \<lparr>latitude = 0, longitude = 0\<rparr>"
    "validCoordinate \<lparr>latitude = 50 / 110540, longitude = 50 / 111320\<rparr>"
    "validCoordinate \<lparr>latitude = 0, longitude = 150 / 111320\<rparr>"
    "validCoordinate \<lparr>latitude = - 50 / 110540, longitude = - 50 / 111320\<rparr>"
    by (simp_all add: validCoordinate_def)
  have c: "chunkOf \<lparr>latitude = 0, longitude = 150 / 111320\<rparr> 100 0
        = Inr \<lparr>chunk_x = 1, chunk_y = 0\<rparr>"
    using chunkOf_floor [of "\<lparr>latitude = 0, longitude = 150 / 111320\<rparr>" 100 0] v
    by simp
  have n: "chunkOf \<lparr>latitude = - 50 / 110540, longitude = - 50 / 111320\<rparr> 100 0
        = Inr \<lparr>chunk_x = - 1, chunk_y = - 1\<rparr>"
    using chunkOf_floor [of "\<lparr>latitude = - 50 / 110540, longitude = - 50 / 111320\<rparr>" 100 0] v
    by simp
  show ?thesis
    using chunkOf_floor [of "\<lparr>latitude = 0, longitude = 0\<rparr>" 100 0
        "\<lparr>latitude = 50 / 110540, longitude = 50 / 111320\<rparr>" 0 0]
      chunkOf_floor [of "\<lparr>latitude = 0, longitude = 0\<rparr>" 100 0
        "\<lparr>latitude = 0, longitude = 150 / 111320\<rparr>" _ _ 150]
      l v c n
    by simp
qed

lemma isWithinRadius_js_eq:
  "isWithinRadius_js location targetLat targetLng radiusMeters
     = Inr (isWithinRadius location targetLat targetLng radiusMeters)"
  by (cases location)
     (simp_all add: isWithinRadius_js_def isWithinRadius_def read_latitude_def
        read_longitude_def)

lemma getDistanceTo_js_eq:
  "getDistanceTo_js location targetLat targetLng
     = Inr (getDistanceTo location targetLat targetLng)"
  by (cases location)
     (simp_all add: getDistanceTo_js_def getDistanceTo_def read_latitude_def
        read_longitude_def)

lemma validCoordinate_iff:
  "validCoordinate c \<longleftrightarrow>
     \<not> (latitude c < - 90 \<or> 90 < latitude c \<or> longitude c < - 180 \<or> 180 < longitude c)"
  by (auto simp add: validCoordinate_def)

lemma validInputs_iff:
  "validInputs report prev ps \<longleftrightarrow>
     \<not> (\<exists>c \<in> set (inputCoordinates report prev ps).
           latitude c < - 90 \<or> 90 < latitude c \<or> longitude c < - 180 \<or> 180 < longitude c)"
proof -
  have "validInputs report prev ps \<longleftrightarrow>
      (\<forall>c \<in> set (inputCoordinates report prev ps). validCoordinate c)"
    by (cases prev) (auto simp add: validInputs_def inputCoordinates_def list_all_iff)
  then show ?thesis by (simp add: validCoordinate_iff)
qed

text \<open>
  Claim C9, amended. The operations the code implements validate neither the coordinates
  nor the radius and never fail: \<open>isWithinRadius\<close> and \<open>getDistanceTo\<close> raise no exception for
  any location, target and radius (with no current location they return false and null),
  and \<open>calculateDistance\<close> puts out-of-range coordinates through the same formula: for two
  latitudes between -180 and 180 on one meridian, at most 180 degrees apart, it returns
  the arc \<open>6371000 |lat2 - lat1| \<pi> / 180\<close>. The two operations of the specification, with a
  positive \<open>epsilon\<close>, a positive chunk size and an origin latitude strictly between -90
  and 90, fail exactly when a coordinate of their input has a latitude outside
  \<open>[-90, 90]\<close> or a longitude outside \<open>[-180, 180]\<close>, and then with \<open>InvalidCoordinate\<close>;
  every other outcome is an ordinary result. No operation fails with \<open>InvalidRadius\<close>.
\<close>

theorem guard_failure_modes:
  "(\<exists>b. isWithinRadius_js location targetLat targetLng radiusMeters = Inr b)
   \<and> isWithinRadius_js None targetLat targetLng radiusMeters = Inr False
   \<and> (\<exists>r. getDistanceTo_js location targetLat targetLng = Inr r)
   \<and> getDistanceTo_js None targetLat targetLng = Inr None
   \<and> (\<bar>lat1\<bar> \<le> 180 \<and> \<bar>lat2\<bar> \<le> 180 \<and> \<bar>lat2 - lat1\<bar> \<le> 180 \<longrightarrow>
        calculateDistance lat1 lon lat2 lon = 6371000 * (\<bar>lat2 - lat1\<bar> * pi / 180))
   \<and> (0 < epsilon cfg \<longrightarrow>
        (evaluateReport cfg report prev n ps = Inl e \<longleftrightarrow>
           e = InvalidCoordinate \<and>
           (\<exists>c \<in> set (inputCoordinates report prev ps).
              latitude c < - 90 \<or> 90 < latitude c \<or>
              longitude c < - 180 \<or> 180 < longitude c)))
   \<and> (0 < s \<and> - 90 < orig \<and> orig < 90 \<longrightarrow>
        (chunkOf c s orig = Inl e \<longleftrightarrow>
           e = InvalidCoordinate \<and>
           (latitude c < - 90 \<or> 90 < latitude c \<or>
            longitude c < - 180 \<or> 180 < longitude c)))"
proof -
  have 1: "\<exists>b. isWithinRadius_js location targetLat targetLng radiusMeters = Inr b"
    by (simp add: isWithinRadius_js_eq)
  have 2: "isWithinRadius_js None targetLat targetLng radiusMeters = Inr False"
    by (simp add: isWithinRadius_js_def)
  have 3: "\<exists>r. getDistanceTo_js location targetLat targetLng = Inr r"
    by (simp add: getDistanceTo_js_eq)
  have 4: "getDistanceTo_js None targetLat targetLng = Inr None"
    by (simp add: getDistanceTo_js_def)
  have 5: "\<bar>lat1\<bar> \<le> 180 \<and> \<bar>lat2\<bar> \<le> 180 \<and> \<bar>lat2 - lat1\<bar> \<le> 180 \<longrightarrow>
        calculateDistance lat1 lon lat2 lon = 6371000 * (\<bar>lat2 - lat1\<bar> * pi / 180)"
    by (simp add: calculateDistance_meridian)
  have "evaluateReport cfg report prev n ps = Inl e \<longleftrightarrow>
      e = InvalidCoordinate \<and> \<not> validInputs report prev ps"
    by (auto simp add: evaluateReport_def Let_def)
  then have 6: "0 < epsilon cfg \<longrightarrow>
        (evaluateReport cfg report prev n ps = Inl e \<longleftrightarrow>
           e = InvalidCoordinate \<and>
           (\<exists>c \<in> set (inputCoordinates report prev ps).
              latitude c < - 90 \<or> 90 < latitude c \<or>
              longitude c < - 180 \<or> 180 < longitude c))"
    by (simp only: validInputs_iff) simp
  have "chunkOf c s orig = Inl e \<longleftrightarrow> e = InvalidCoordinate \<and> \<not> validCoordinate c"
    by (auto simp add: chunkOf_def)
  then have 7: "0 < s \<and> - 90 < orig \<and> orig < 90 \<longrightarrow>
        (chunkOf c s orig = Inl e \<longleftrightarrow>
           e = InvalidCoordinate \<and>
           (latitude c < - 90 \<or> 90 < latitude c \<or>
            longitude c < - 180 \<or> 180 < longitude c))"
    by (simp only: validCoordinate_iff) simp
  from 1 2 3 4 5 6 7 show ?thesis by (intro conjI)
qed

text \<open>
  With no current location nothing is raised; latitude 91 on the meridian of Greenwich is
  10,118 km from the equator; a report at latitude 91 makes \<open>evaluateReport\<close> and
  \<open>chunkOf\<close> fail with \<open>InvalidCoordinate\<close>, and one at latitude 10 does not.
\<close>

theorem guard_failure_modes_witness:
  "isWithinRadius_js None 10 106 50 = Inr False
   \<and> getDistanceTo_js None 10 106 = Inr None
   \<and> isWithinRadius_js (Some \<lparr>latitude = 91, longitude = 0\<rparr>) 91 0 0 = Inr True
   \<and> \<bar>91 :: real\<bar> \<le> 180 \<and> \<bar>0 :: real\<bar> \<le> 180 \<and> \<bar>0 - 91 :: real\<bar> \<le> 180
   \<and> calculateDistance 91 0 0 0 = 6371000 * (91 * pi / 180)
   \<and> 0 < epsilon (defaultConfig (1 / 1000))
   \<and> evaluateReport (defaultConfig (1 / 1000))
        (sampleReport \<lparr>latitude = 91, longitude = 0\<rparr> 0 False) None 0 []
        = Inl InvalidCoordinate
   \<and> evaluateReport (defaultConfig (1 / 1000))
        (sampleReport \<lparr>latitude = 10, longitude = 106\<rparr> 0 False) None 0 []
        \<noteq> Inl InvalidCoordinate
   \<and> (0 :: real) < 100 \<and> (- 90 :: real) < 0 \<and> (0 :: real) < 90
   \<and> chunkOf \<lparr>latitude = 91, longitude = 0\<rparr> 100 0 = Inl InvalidCoordinate
   \<and> chunkOf \<lparr>latitude = 10, longitude = 106\<rparr> 100 0 \<noteq> Inl InvalidCoordinate"
proof -
  have same: "calculateDistance 91 0 91 0 = 0"
    by (simp add: calculateDistance_arccos centralCosine_same)
  have w: "isWithinRadius_js (Some \<lparr>latitude = 91, longitude = 0\<rparr>) 91 0 0 = Inr True"
    using same
    by (simp add: isWithinRadius_js_def read_latitude_def read_longitude_def)
  have e: "0 < epsilon (defaultConfig (1 / 1000))" by (simp add: defaultConfig_def)
  note bad = guard_failure_modes [of None 10 106 50 91 0 0 "defaultConfig (1 / 1000)"
      "sampleReport \<lparr>latitude = 91, longitude = 0\<rparr> 0 False" None 0 "[]" InvalidCoordinate
      100 0 "\<lparr>latitude = 91, longitude = 0\<rparr>"]
  note good = guard_failure_modes [of None 10 106 50 91 0 0 "defaultConfig (1 / 1000)"
      "sampleReport \<lparr>latitude = 10, longitude = 106\<rparr> 0 False" None 0 "[]" InvalidCoordinate
      100 0 "\<lparr>latitude = 10, longitude = 106\<rparr>"]
  show ?thesis
    using bad good w e
    by (simp add: inputCoordinates_def sampleReport_def)
qed

text \<open>
  Claim C9 as stated fails: at latitude 91 the specification's wording fails with
  \<open>InvalidCoordinate\<close>, while the code returns the distance along the meridian; and with the
  radius -5 \<open>isWithinRadius\<close> returns false rather than failing.
\<close>

theorem guard_failure_counterexample:
  "spec_distanceMeters \<lparr>latitude = 91, longitude = 0\<rparr> \<lparr>latitude = 0, longitude = 0\<rparr>
      = Inl InvalidCoordinate
   \<and> calculateDistance 91 0 0 0 = 6371000 * (91 * pi / 180)
   \<and> isWithinRadius (Some \<lparr>latitude = 91, longitude = 0\<rparr>) 0 0 (- 5) = False"
proof -
  have "calculateDistance 91 0 0 0 = 6371000 * (\<bar>0 - 91\<bar> * pi / 180)"
    by (rule calculateDistance_meridian) simp
  then have d: "calculateDistance 91 0 0 0 = 6371000 * (91 * pi / 180)" by simp
  have "\<not> calculateDistance 91 0 0 0 \<le> - 5"
    using calculateDistance_range(1) [of 91 0 0 0] by linarith
  with d show ?thesis
    by (simp add: spec_distanceMeters_def validCoordinate_def isWithinRadius_def)
qed

end
